theory Spec2Isabelle
  imports Main "HOL-Library.Word"
begin

unbundle bit_operations_syntax

section \<open>Python values\<close>

text \<open>
  A Python \<open>str\<close> is a sequence of Unicode code points; \<open>len\<close>, \<open>endswith\<close> and
  \<open>strip\<close> count code points, so a string is a list of code points here. \<open>ustr\<close>
  writes an ASCII literal.
\<close>

type_synonym pystr = "nat list"

type_synonym byte = "8 word"

definition ustr :: "string \<Rightarrow> pystr" where
  "ustr s = map of_char s"

text \<open>
  The values \<open>json.loads\<close> produces: \<open>None\<close>, \<open>bool\<close>, \<open>int\<close>, \<open>float\<close> (the 64 bits
  of the IEEE double), \<open>str\<close>, \<open>list\<close> and \<open>dict\<close> (its items in order, keys distinct).
\<close>

datatype pyval =
    PNone
  | PBool bool
  | PInt int
  | PFloat "64 word"
  | PStr pystr
  | PList "pyval list"
  | PDict "(pystr \<times> pyval) list"

text \<open>
  Exceptions that derive from \<open>Exception\<close>: the class name and \<open>str(e)\<close>.
\<close>

datatype exn = Exn string pystr

fun exn_str :: "exn \<Rightarrow> pystr" where
  "exn_str (Exn cls msg) = msg"

text \<open>
  Truth value testing, as \<open>not payload\<close>, \<open>not data_b64\<close> and \<open>language and ...\<close> apply
  it: \<open>None\<close>, \<open>False\<close>, zero (for a float both zeros: every bit but the sign is clear)
  and the empty string, list and dict are false.
\<close>

fun truthy :: "pyval \<Rightarrow> bool" where
  "truthy PNone = False"
| "truthy (PBool b) = b"
| "truthy (PInt i) = (i \<noteq> 0)"
| "truthy (PFloat w) = (take_bit 63 w \<noteq> 0)"
| "truthy (PStr s) = (s \<noteq> [])"
| "truthy (PList xs) = (xs \<noteq> [])"
| "truthy (PDict kvs) = (kvs \<noteq> [])"

fun type_name :: "pyval \<Rightarrow> pystr" where
  "type_name PNone = ustr ''NoneType''"
| "type_name (PBool b) = ustr ''bool''"
| "type_name (PInt i) = ustr ''int''"
| "type_name (PFloat w) = ustr ''float''"
| "type_name (PStr s) = ustr ''str''"
| "type_name (PList xs) = ustr ''list''"
| "type_name (PDict kvs) = ustr ''dict''"

text \<open>
  Looking up a method the value's type does not have raises \<open>AttributeError\<close>;
  39 is the apostrophe.
\<close>

definition no_attribute :: "pyval \<Rightarrow> string \<Rightarrow> exn" where
  "no_attribute v a =
     Exn ''AttributeError''
       ([39] @ type_name v @ [39] @ ustr '' object has no attribute '' @ [39] @ ustr a @ [39])"

text \<open>\<open>v.get(k, d)\<close>: only a dict has \<open>get\<close>.\<close>

fun py_get :: "pyval \<Rightarrow> pystr \<Rightarrow> pyval \<Rightarrow> exn + pyval" where
  "py_get (PDict kvs) k d = Inr (case map_of kvs k of None \<Rightarrow> d | Some v \<Rightarrow> v)"
| "py_get v k d = Inl (no_attribute v ''get'')"

text \<open>\<open>s.endswith(x)\<close> on strings.\<close>

definition endswith :: "pystr \<Rightarrow> pystr \<Rightarrow> bool" where
  "endswith s x = (length x \<le> length s \<and> drop (length s - length x) s = x)"

text \<open>
  \<open>str.isspace\<close> of one code point, the set \<open>str.strip()\<close> removes: the ASCII
  whitespace and separators 9-13 and 28-32, and U+0085, U+00A0, U+1680, U+2000-U+200A,
  U+2028, U+2029, U+202F, U+205F, U+3000.
\<close>

definition isspace :: "nat \<Rightarrow> bool" where
  "isspace c = (c \<in> set [9, 10, 11, 12, 13, 28, 29, 30, 31, 32, 133, 160, 5760,
       8192, 8193, 8194, 8195, 8196, 8197, 8198, 8199, 8200, 8201, 8202,
       8232, 8233, 8239, 8287, 12288])"

definition strip :: "pystr \<Rightarrow> pystr" where
  "strip s = rev (dropWhile isspace (rev (dropWhile isspace s)))"

text \<open>\<open>v.strip()\<close>: of the values above only a string has \<open>strip\<close>.\<close>

fun py_strip :: "pyval \<Rightarrow> exn + pystr" where
  "py_strip (PStr s) = Inr (strip s)"
| "py_strip v = Inl (no_attribute v ''strip'')"

section \<open>The world outside the handler\<close>

text \<open>
  What a request can change: the files on disk, and the calls made to the libraries and
  to the model, in order (the temporary file created with its suffix, the model's
  \<open>transcribe\<close> with its path and keyword arguments, \<open>os.unlink\<close>, and the lines
  printed).
\<close>

datatype event =
    Tempfile pystr pystr
  | ModelTranscribe pystr "(pystr \<times> pyval) list"
  | Unlink pystr
  | Print "pystr list"

record world =
  files :: "pystr \<rightharpoonup> byte list"
  calls :: "event list"

definition emit :: "event \<Rightarrow> world \<Rightarrow> world" where
  "emit ev w = w\<lparr>calls := calls w @ [ev]\<rparr>"

text \<open>
  The libraries and the model are not part of the program; each is a parameter that
  says what the call returns or raises: \<open>base64.b64decode\<close>, the name
  \<open>tempfile.NamedTemporaryFile(suffix=..., delete=False)\<close> picks, \<open>write\<close>, \<open>flush\<close> and
  \<open>close\<close> of that file, \<open>model.transcribe\<close>, \<open>os.unlink\<close>, \<open>traceback.format_exc\<close>,
  and \<open>str\<close> of a value that is not a string (used by the f-strings). A call that
  depends on the disk is given the world it runs in. What a call does to the disk is
  written in the handler below: a file created empty, its content written, a file
  removed; the buffer of the file object is not modelled, and the model only reads.
  \<open>print\<close> and \<open>jsonify\<close> are taken not to raise.
\<close>

record env =
  b64decode :: "pyval \<Rightarrow> exn + byte list"
  NamedTemporaryFile :: "pystr \<Rightarrow> world \<Rightarrow> exn + pystr"
  tmp_write :: "pystr \<Rightarrow> byte list \<Rightarrow> world \<Rightarrow> exn option"
  tmp_flush :: "pystr \<Rightarrow> world \<Rightarrow> exn option"
  tmp_close :: "pystr \<Rightarrow> world \<Rightarrow> exn option"
  model_transcribe :: "pystr \<Rightarrow> (pystr \<times> pyval) list \<Rightarrow> world \<Rightarrow> exn + pyval"
  os_unlink :: "pystr \<Rightarrow> world \<Rightarrow> exn option"
  format_exc :: "exn \<Rightarrow> pystr"
  str_of :: "pyval \<Rightarrow> pystr"

text \<open>
  The body of a request: bytes that \<open>json.loads\<close> rejects (the empty body among
  them), or the value it parses to. \<open>request.get_json(force=True)\<close> ignores the content
  type and, as \<open>silent\<close> is left False, raises werkzeug's \<open>BadRequest\<close> when the body
  does not parse; \<open>BadRequest\<close> derives from \<open>Exception\<close>. The message is the library's.
\<close>

datatype body = Unparseable pystr | Json pyval

fun get_json :: "body \<Rightarrow> exn + pyval" where
  "get_json (Unparseable msg) = Inl (Exn ''BadRequest'' msg)"
| "get_json (Json v) = Inr v"

record response =
  status :: nat
  json :: pyval

text \<open>\<open>jsonify(d)\<close> alone answers with status 200; \<open>jsonify(d), n\<close> with status n.\<close>

definition jsonify :: "nat \<Rightarrow> (pystr \<times> pyval) list \<Rightarrow> response" where
  "jsonify n d = \<lparr>status = n, json = PDict d\<rparr>"

section \<open>server.py\<close>

subsection \<open>Startup and /health\<close>

text \<open>\<open>MODEL_NAME = os.environ.get("WHISPER_MODEL", "base")\<close>\<close>

definition MODEL_NAME :: "(pystr \<rightharpoonup> pystr) \<Rightarrow> pystr" where
  "MODEL_NAME environ =
     (case environ (ustr ''WHISPER_MODEL'') of None \<Rightarrow> ustr ''base'' | Some v \<Rightarrow> v)"

text \<open>\<open>health()\<close>, given the module's \<open>MODEL_NAME\<close>.\<close>

definition health :: "pystr \<Rightarrow> world \<Rightarrow> response \<times> world" where
  "health model_name w =
     (jsonify 200 [(ustr ''ok'', PBool True), (ustr ''model'', PStr model_name)], w)"

subsection \<open>/transcribe\<close>

definition msg_empty :: pystr where
  "msg_empty = ustr ''Request JSON vac'' @ [237] @ ustr ''o''"

definition msg_missing :: pystr where
  "msg_missing = ustr ''Falta campo 'data' (base64)''"

text \<open>\<open>f"{v}"\<close>: a string as it is, any other value through \<open>str\<close>.\<close>

definition fmt_value :: "env \<Rightarrow> pyval \<Rightarrow> pystr" where
  "fmt_value E v = (case v of PStr s \<Rightarrow> s | _ \<Rightarrow> str_of E v)"

text \<open>
  Line 43: \<open>suffix = f".{fmt}" if not filename.endswith(f".{fmt}") else ""\<close>.
  A \<open>filename\<close> that is not a string has no \<open>endswith\<close>.
\<close>

definition dot_fmt :: "env \<Rightarrow> pyval \<Rightarrow> pystr" where
  "dot_fmt E fmt = ustr ''.'' @ fmt_value E fmt"

definition suffix_of :: "env \<Rightarrow> pyval \<Rightarrow> pyval \<Rightarrow> exn + pystr" where
  "suffix_of E filename fmt =
     (case filename of
        PStr fn \<Rightarrow> Inr (if \<not> endswith fn (dot_fmt E fmt) then dot_fmt E fmt else [])
      | _ \<Rightarrow> Inl (no_attribute filename ''endswith''))"

text \<open>
  Lines 51-53: \<open>whisper_opts = {}\<close>, then
  \<open>if language and language != "auto": whisper_opts["language"] = language\<close>.
\<close>

definition whisper_opts :: "pyval \<Rightarrow> (pystr \<times> pyval) list" where
  "whisper_opts language =
     (if truthy language \<and> language \<noteq> PStr (ustr ''auto'')
      then [(ustr ''language'', language)] else [])"

text \<open>
  Lines 46-57, the body of the inner \<open>try\<close>: decode, write, flush, close, print,
  transcribe, take the text. The first exception ends it.
\<close>

definition transcribe_file :: "env \<Rightarrow> pystr \<Rightarrow> pyval \<Rightarrow> pyval \<Rightarrow> world \<Rightarrow> (exn + pystr) \<times> world" where
  "transcribe_file E tmp data_b64 language w =
     (case b64decode E data_b64 of
        Inl e \<Rightarrow> (Inl e, w)
      | Inr bs \<Rightarrow>
     (case tmp_write E tmp bs w of
        Some e \<Rightarrow> (Inl e, w)
      | None \<Rightarrow>
     (let w1 = w\<lparr>files := (files w)(tmp \<mapsto> bs)\<rparr> in
      case tmp_flush E tmp w1 of
        Some e \<Rightarrow> (Inl e, w1)
      | None \<Rightarrow>
     (case tmp_close E tmp w1 of
        Some e \<Rightarrow> (Inl e, w1)
      | None \<Rightarrow>
     (let opts = whisper_opts language;
          w2 = emit (Print [ustr ''Transcribiendo '' @ tmp @ ustr '' (lang=''
                              @ fmt_value E language @ ustr '')'']) w1;
          w3 = emit (ModelTranscribe tmp opts) w2 in
      case model_transcribe E tmp opts w2 of
        Inl e \<Rightarrow> (Inl e, w3)
      | Inr result \<Rightarrow>
     (case py_get result (ustr ''text'') (PStr []) of
        Inl e \<Rightarrow> (Inl e, w3)
      | Inr t \<Rightarrow>
     (case py_strip t of
        Inl e \<Rightarrow> (Inl e, w3)
      | Inr text \<Rightarrow> (Inr text, w3))))))))"

text \<open>
  Lines 58-62, the \<open>finally\<close>: \<open>os.unlink(tmp.name)\<close> with every exception of it
  passed over. When the call raises, the disk is as it was.
\<close>

definition unlink_quietly :: "env \<Rightarrow> pystr \<Rightarrow> world \<Rightarrow> world" where
  "unlink_quietly E tmp w =
     (case os_unlink E tmp w of
        Some e \<Rightarrow> emit (Unlink tmp) w
      | None \<Rightarrow> emit (Unlink tmp) (w\<lparr>files := (files w)(tmp := None)\<rparr>))"

text \<open>
  Lines 44-64 once \<open>NamedTemporaryFile\<close> has returned the file \<open>tmp\<close>, created
  empty on disk: the inner \<open>try\<close>, its \<open>finally\<close>, and then either the exception
  going on to the outer handler or the answer of line 64.
\<close>

definition with_tmpfile ::
  "env \<Rightarrow> pystr \<Rightarrow> pystr \<Rightarrow> pyval \<Rightarrow> pyval \<Rightarrow> world \<Rightarrow> (exn + response) \<times> world" where
  "with_tmpfile E suffix tmp data_b64 language w =
     (let w1 = emit (Tempfile suffix tmp) (w\<lparr>files := (files w)(tmp \<mapsto> [])\<rparr>);
          (r, w2) = transcribe_file E tmp data_b64 language w1;
          w3 = unlink_quietly E tmp w2 in
      case r of
        Inl e \<Rightarrow> (Inl e, w3)
      | Inr text \<Rightarrow>
          (Inr (jsonify 200 [(ustr ''ok'', PBool True), (ustr ''text'', PStr text)]), w3))"

text \<open>Lines 30-64, the body of the outer \<open>try\<close>.\<close>

definition transcribe_body :: "env \<Rightarrow> body \<Rightarrow> world \<Rightarrow> (exn + response) \<times> world" where
  "transcribe_body E b w =
     (case get_json b of
        Inl e \<Rightarrow> (Inl e, w)
      | Inr payload \<Rightarrow>
     (if \<not> truthy payload
      then (Inr (jsonify 400 [(ustr ''ok'', PBool False), (ustr ''error'', PStr msg_empty)]), w)
      else
     (case py_get payload (ustr ''data'') PNone of
        Inl e \<Rightarrow> (Inl e, w)
      | Inr data_b64 \<Rightarrow>
     (if \<not> truthy data_b64
      then (Inr (jsonify 400 [(ustr ''ok'', PBool False), (ustr ''error'', PStr msg_missing)]), w)
      else
     (case py_get payload (ustr ''filename'') (PStr (ustr ''audio'')) of
        Inl e \<Rightarrow> (Inl e, w)
      | Inr filename \<Rightarrow>
     (case py_get payload (ustr ''format'') (PStr (ustr ''wav'')) of
        Inl e \<Rightarrow> (Inl e, w)
      | Inr fmt \<Rightarrow>
     (case py_get payload (ustr ''language'') (PStr (ustr ''auto'')) of
        Inl e \<Rightarrow> (Inl e, w)
      | Inr language \<Rightarrow>
     (case suffix_of E filename fmt of
        Inl e \<Rightarrow> (Inl e, w)
      | Inr suffix \<Rightarrow>
     (case NamedTemporaryFile E suffix w of
        Inl e \<Rightarrow> (Inl e, w)
      | Inr tmp \<Rightarrow> with_tmpfile E suffix tmp data_b64 language w)))))))))"

text \<open>
  Lines 28-68, \<open>transcribe()\<close>: what the body returns, or for an exception the trace
  printed and the answer with status 500.
\<close>

definition transcribe :: "env \<Rightarrow> body \<Rightarrow> world \<Rightarrow> response \<times> world" where
  "transcribe E b w =
     (case transcribe_body E b w of
        (Inr resp, w') \<Rightarrow> (resp, w')
      | (Inl e, w') \<Rightarrow>
          (let tb = format_exc E e in
           (jsonify 500 [(ustr ''ok'', PBool False), (ustr ''error'', PStr (exn_str e)),
                         (ustr ''trace'', PStr tb)],
            emit (Print [ustr ''ERROR en transcribe:'', tb]) w')))"

section \<open>Reading a run\<close>

text \<open>
  The calls a handler added to the record, and among them the temporary files created
  (suffix and name) and the calls of the model (path and keyword arguments).
\<close>

definition new_calls :: "world \<Rightarrow> world \<Rightarrow> event list" where
  "new_calls w w' = drop (length (calls w)) (calls w')"

fun tempfile_of :: "event \<Rightarrow> (pystr \<times> pystr) list" where
  "tempfile_of (Tempfile suffix name) = [(suffix, name)]"
| "tempfile_of ev = []"

fun model_call_of :: "event \<Rightarrow> (pystr \<times> (pystr \<times> pyval) list) list" where
  "model_call_of (ModelTranscribe path opts) = [(path, opts)]"
| "model_call_of ev = []"

definition tempfiles :: "event list \<Rightarrow> (pystr \<times> pystr) list" where
  "tempfiles evs = concat (map tempfile_of evs)"

definition model_calls :: "event list \<Rightarrow> (pystr \<times> (pystr \<times> pyval) list) list" where
  "model_calls evs = concat (map model_call_of evs)"

text \<open>The value of a field of a JSON answer.\<close>

definition field :: "response \<Rightarrow> string \<Rightarrow> pyval option" where
  "field r k = (case json r of PDict d \<Rightarrow> map_of d (ustr k) | _ \<Rightarrow> None)"

subsection \<open>A concrete setting\<close>

text \<open>
  A setting to run the handler in: an empty disk; a decoder that knows one payload
  (\<open>aGk=\<close> is \<open>hi\<close>) and rejects everything else as CPython rejects
  \<open>not-valid-base64!!\<close>; temporary files named \<open>/tmp/tmpq1w2e3\<close> plus the suffix; a
  model that reads the file and answers \<open>" hola mundo \n"\<close>; \<open>str\<close> renders
  \<open>True\<close> and \<open>False\<close> and, as no run below formats anything else, every other
  value as \<open>None\<close>. In the second setting \<open>os.unlink\<close> raises \<open>PermissionError\<close>.
\<close>

definition disk0 :: world where
  "disk0 = \<lparr>files = Map.empty, calls = []\<rparr>"

definition demo_env :: env where
  "demo_env = \<lparr>
     b64decode = (\<lambda>v. if v = PStr (ustr ''aGk='') then Inr [104, 105]
                       else Inl (Exn ''binascii.Error'' (ustr ''Incorrect padding''))),
     NamedTemporaryFile = (\<lambda>suffix w. Inr (ustr ''/tmp/tmpq1w2e3'' @ suffix)),
     tmp_write = (\<lambda>p bs w. None),
     tmp_flush = (\<lambda>p w. None),
     tmp_close = (\<lambda>p w. None),
     model_transcribe = (\<lambda>p opts w.
        case files w p of
          None \<Rightarrow> Inl (Exn ''FileNotFoundError'' p)
        | Some bs \<Rightarrow> Inr (PDict [(ustr ''text'', PStr (ustr '' hola mundo '' @ [10])),
                                (ustr ''language'', PStr (ustr ''es''))])),
     os_unlink = (\<lambda>p w. None),
     format_exc = (\<lambda>e. ustr ''Traceback (most recent call last):'' @ [10] @ exn_str e),
     str_of = (\<lambda>v. case v of
        PBool b \<Rightarrow> if b then ustr ''True'' else ustr ''False''
      | _ \<Rightarrow> ustr ''None'')\<rparr>"

definition demo_env_unlink_fails :: env where
  "demo_env_unlink_fails =
     demo_env\<lparr>os_unlink := (\<lambda>p w. Some (Exn ''PermissionError'' p))\<rparr>"

section \<open>Lemmas about the parts\<close>

subsection \<open>strip\<close>

lemma strip_hd: "strip t \<noteq> [] \<Longrightarrow> \<not> isspace (hd (strip t))"
proof -
  assume ne: "strip t \<noteq> []"
  let ?u = "dropWhile isspace t"
  let ?v = "dropWhile isspace (rev ?u)"
  from ne have v: "?v \<noteq> []" by (simp add: strip_def)
  have u: "?u \<noteq> []"
  proof
    assume "?u = []"
    then have "?v = []" by (simp only: rev.simps dropWhile.simps)
    with v show False ..
  qed
  have "hd (strip t) = last ?v" using v by (simp add: strip_def hd_rev)
  also have "last ?v = last (rev ?u)"
    using v by (metis last_appendR takeWhile_dropWhile_id)
  also have "\<dots> = hd ?u" using u by (simp add: last_rev)
  finally show ?thesis using u by (simp add: hd_dropWhile)
qed

lemma strip_last: "strip t \<noteq> [] \<Longrightarrow> \<not> isspace (last (strip t))"
proof -
  assume ne: "strip t \<noteq> []"
  let ?v = "dropWhile isspace (rev (dropWhile isspace t))"
  from ne have v: "?v \<noteq> []" by (simp add: strip_def)
  have "last (strip t) = hd ?v" using v by (simp add: strip_def last_rev)
  then show ?thesis using v by (simp add: hd_dropWhile)
qed

lemma strip_decomp:
  "\<exists>a z. t = a @ strip t @ z \<and> (\<forall>c\<in>set a. isspace c) \<and> (\<forall>c\<in>set z. isspace c)"
proof -
  let ?u = "dropWhile isspace t"
  let ?a = "takeWhile isspace t"
  let ?z = "rev (takeWhile isspace (rev ?u))"
  have 1: "t = ?a @ ?u" by simp
  have "rev (takeWhile isspace (rev ?u) @ dropWhile isspace (rev ?u)) = ?u"
    by (simp only: takeWhile_dropWhile_id rev_rev_ident)
  then have 2: "?u = strip t @ ?z" by (simp only: rev_append strip_def)
  have a: "\<forall>c\<in>set ?a. isspace c" by (auto dest: set_takeWhileD)
  have z: "\<forall>c\<in>set ?z. isspace c" by (auto dest: set_takeWhileD)
  from 1 2 have "t = ?a @ strip t @ ?z" by simp
  with a z show ?thesis by blast
qed


subsection \<open>The handler\<close>

lemma tf_calls:
  "calls (snd (transcribe_file E tmp d l w)) = calls w \<or>
   calls (snd (transcribe_file E tmp d l w)) =
     calls w @ [Print [ustr ''Transcribiendo '' @ tmp @ ustr '' (lang='' @ fmt_value E l @ ustr '')''],
                ModelTranscribe tmp (whisper_opts l)]"
  unfolding transcribe_file_def emit_def Let_def
  by (auto split: sum.splits option.splits)

lemma py_strip_Inr: "py_strip v = Inr text \<Longrightarrow> \<exists>t. v = PStr t \<and> text = strip t"
  by (cases v) auto

lemma tf_text:
  "fst (transcribe_file E tmp d l w) = Inr text \<Longrightarrow>
   \<exists>v result t. model_transcribe E tmp (whisper_opts l) v = Inr result \<and>
      py_get result (ustr ''text'') (PStr []) = Inr (PStr t) \<and> text = strip t"
  unfolding transcribe_file_def emit_def Let_def
  by (auto split: sum.splits option.splits dest!: py_strip_Inr)

lemma tf_decode:
  "b64decode E d = Inl e \<Longrightarrow> transcribe_file E tmp d l w = (Inl e, w)"
  unfolding transcribe_file_def by simp

lemma transcribe_body_shape:
  "(\<exists>e. transcribe_body E b w = (Inl e, w)) \<or>
   (\<exists>payload. b = Json payload \<and> \<not> truthy payload \<and>
      transcribe_body E b w =
        (Inr (jsonify 400 [(ustr ''ok'', PBool False), (ustr ''error'', PStr msg_empty)]), w)) \<or>
   (\<exists>payload d. b = Json payload \<and> truthy payload \<and>
      py_get payload (ustr ''data'') PNone = Inr d \<and> \<not> truthy d \<and>
      transcribe_body E b w =
        (Inr (jsonify 400 [(ustr ''ok'', PBool False), (ustr ''error'', PStr msg_missing)]), w)) \<or>
   (\<exists>payload d fn fmt language tmp.
      b = Json payload \<and> truthy payload \<and>
      py_get payload (ustr ''data'') PNone = Inr d \<and> truthy d \<and>
      py_get payload (ustr ''filename'') (PStr (ustr ''audio'')) = Inr (PStr fn) \<and>
      py_get payload (ustr ''format'') (PStr (ustr ''wav'')) = Inr fmt \<and>
      py_get payload (ustr ''language'') (PStr (ustr ''auto'')) = Inr language \<and>
      NamedTemporaryFile E (if \<not> endswith fn (dot_fmt E fmt) then dot_fmt E fmt else []) w = Inr tmp \<and>
      transcribe_body E b w =
        with_tmpfile E (if \<not> endswith fn (dot_fmt E fmt) then dot_fmt E fmt else []) tmp d language w)"
proof (cases b)
  case (Unparseable m)
  then show ?thesis by (simp add: transcribe_body_def)
next
  case (Json payload)
  show ?thesis
  proof (cases "truthy payload")
    case False
    with Json show ?thesis by (simp add: transcribe_body_def)
  next
    case tp: True
    show ?thesis
    proof (cases payload)
      case (PDict kvs)
      define d where "d = (case map_of kvs (ustr ''data'') of None \<Rightarrow> PNone | Some v \<Rightarrow> v)"
      define filename where
        "filename = (case map_of kvs (ustr ''filename'') of None \<Rightarrow> PStr (ustr ''audio'') | Some v \<Rightarrow> v)"
      define fmt where
        "fmt = (case map_of kvs (ustr ''format'') of None \<Rightarrow> PStr (ustr ''wav'') | Some v \<Rightarrow> v)"
      define language where
        "language = (case map_of kvs (ustr ''language'') of None \<Rightarrow> PStr (ustr ''auto'') | Some v \<Rightarrow> v)"
      note gets = d_def [symmetric] filename_def [symmetric] fmt_def [symmetric]
        language_def [symmetric]
      show ?thesis
      proof (cases "truthy d")
        case False
        with Json PDict tp show ?thesis by (simp add: transcribe_body_def gets)
      next
        case td: True
        show ?thesis
        proof (cases filename)
          case (PStr fn)
          let ?suffix = "if \<not> endswith fn (dot_fmt E fmt) then dot_fmt E fmt else []"
          show ?thesis
          proof (cases "NamedTemporaryFile E ?suffix w")
            case (Inl e)
            with Json PDict tp td PStr show ?thesis
              by (simp add: transcribe_body_def suffix_of_def gets)
          next
            case (Inr tmp)
            with Json PDict tp td PStr
            have "transcribe_body E b w = with_tmpfile E ?suffix tmp d language w"
              by (simp add: transcribe_body_def suffix_of_def gets)
            with Json PDict tp td PStr Inr show ?thesis
              by (simp add: gets)
          qed
        qed (use Json PDict tp td in \<open>simp_all add: transcribe_body_def suffix_of_def gets\<close>)
      qed
    qed (use Json tp in \<open>simp_all add: transcribe_body_def\<close>)
  qed
qed

lemma unlink_calls: "calls (unlink_quietly E tmp w) = calls w @ [Unlink tmp]"
  by (simp add: unlink_quietly_def emit_def split: option.splits)

lemma unlink_files:
  "files (unlink_quietly E tmp w) =
     (case os_unlink E tmp w of None \<Rightarrow> (files w)(tmp := None) | Some e \<Rightarrow> files w)"
  by (simp add: unlink_quietly_def emit_def split: option.splits)

lemma with_tmpfile_snd:
  "snd (with_tmpfile E suffix tmp d l w) =
     unlink_quietly E tmp
       (snd (transcribe_file E tmp d l (emit (Tempfile suffix tmp) (w\<lparr>files := (files w)(tmp \<mapsto> [])\<rparr>))))"
  by (simp add: with_tmpfile_def Let_def split: prod.splits sum.splits)

lemma with_tmpfile_fst:
  "fst (with_tmpfile E suffix tmp d l w) =
     (case fst (transcribe_file E tmp d l (emit (Tempfile suffix tmp) (w\<lparr>files := (files w)(tmp \<mapsto> [])\<rparr>))) of
        Inl e \<Rightarrow> Inl e
      | Inr text \<Rightarrow> Inr (jsonify 200 [(ustr ''ok'', PBool True), (ustr ''text'', PStr text)]))"
  by (simp add: with_tmpfile_def Let_def split: prod.splits sum.splits)

lemma transcribe_fst:
  "fst (transcribe E b w) =
     (case fst (transcribe_body E b w) of
        Inr resp \<Rightarrow> resp
      | Inl e \<Rightarrow> jsonify 500 [(ustr ''ok'', PBool False), (ustr ''error'', PStr (exn_str e)),
                              (ustr ''trace'', PStr (format_exc E e))])"
  by (simp add: transcribe_def Let_def split: prod.splits sum.splits)

lemma transcribe_files: "files (snd (transcribe E b w)) = files (snd (transcribe_body E b w))"
  by (simp add: transcribe_def Let_def emit_def split: prod.splits sum.splits)

lemma transcribe_calls:
  "calls (snd (transcribe E b w)) =
     calls (snd (transcribe_body E b w)) @
       (case fst (transcribe_body E b w) of
          Inr resp \<Rightarrow> []
        | Inl e \<Rightarrow> [Print [ustr ''ERROR en transcribe:'', format_exc E e]])"
  by (simp add: transcribe_def Let_def emit_def split: prod.splits sum.splits)

lemma with_tmpfile_calls:
  "\<exists>mid. (mid = [] \<or>
          mid = [Print [ustr ''Transcribiendo '' @ tmp @ ustr '' (lang='' @ fmt_value E l @ ustr '')''],
                 ModelTranscribe tmp (whisper_opts l)]) \<and>
     calls (snd (with_tmpfile E suffix tmp d l w)) = calls w @ Tempfile suffix tmp # mid @ [Unlink tmp]"
  using tf_calls [of E tmp d l "emit (Tempfile suffix tmp) (w\<lparr>files := (files w)(tmp \<mapsto> [])\<rparr>)"]
  by (auto simp: with_tmpfile_snd unlink_calls emit_def)

lemma with_tmpfile_removed:
  "\<forall>v. os_unlink E tmp v = None \<Longrightarrow> files (snd (with_tmpfile E suffix tmp d l w)) tmp = None"
  by (simp add: with_tmpfile_snd unlink_files)

text \<open>
  What a request does to the world: either the disk is as it was and at most the error
  line was printed, or one temporary file was created, perhaps passed to the model, and
  \<open>os.unlink\<close> was called on it.
\<close>

lemma transcribe_run:
  "((new_calls w (snd (transcribe E b w)) = [] \<or>
     (\<exists>tb. new_calls w (snd (transcribe E b w)) = [Print [ustr ''ERROR en transcribe:'', tb]])) \<and>
    files (snd (transcribe E b w)) = files w) \<or>
   (\<exists>payload d fn fmt language tmp mid tail.
      b = Json payload \<and> truthy payload \<and>
      py_get payload (ustr ''data'') PNone = Inr d \<and> truthy d \<and>
      py_get payload (ustr ''filename'') (PStr (ustr ''audio'')) = Inr (PStr fn) \<and>
      py_get payload (ustr ''format'') (PStr (ustr ''wav'')) = Inr fmt \<and>
      py_get payload (ustr ''language'') (PStr (ustr ''auto'')) = Inr language \<and>
      (mid = [] \<or>
       mid = [Print [ustr ''Transcribiendo '' @ tmp @ ustr '' (lang='' @ fmt_value E language @ ustr '')''],
              ModelTranscribe tmp (whisper_opts language)]) \<and>
      (tail = [] \<or> (\<exists>tb. tail = [Print [ustr ''ERROR en transcribe:'', tb]])) \<and>
      new_calls w (snd (transcribe E b w)) =
        Tempfile (if \<not> endswith fn (dot_fmt E fmt) then dot_fmt E fmt else []) tmp
          # mid @ Unlink tmp # tail \<and>
      ((\<forall>v. os_unlink E tmp v = None) \<longrightarrow> files (snd (transcribe E b w)) tmp = None))"
  (is "?plain \<or> ?tmp")
proof -
  let ?B = "transcribe_body E b w"
  let ?tail = "case fst ?B of Inr resp \<Rightarrow> []
                 | Inl e \<Rightarrow> [Print [ustr ''ERROR en transcribe:'', format_exc E e]]"
  have tail: "?tail = [] \<or> (\<exists>tb. ?tail = [Print [ustr ''ERROR en transcribe:'', tb]])"
    by (simp split: sum.splits)
  from transcribe_body_shape [of E b w]
  consider (same) "snd ?B = w"
    | (tmp) payload d fn fmt language tmp where
      "b = Json payload" "truthy payload"
      "py_get payload (ustr ''data'') PNone = Inr d" "truthy d"
      "py_get payload (ustr ''filename'') (PStr (ustr ''audio'')) = Inr (PStr fn)"
      "py_get payload (ustr ''format'') (PStr (ustr ''wav'')) = Inr fmt"
      "py_get payload (ustr ''language'') (PStr (ustr ''auto'')) = Inr language"
      "?B = with_tmpfile E (if \<not> endswith fn (dot_fmt E fmt) then dot_fmt E fmt else []) tmp d language w"
    by fastforce
  then show ?thesis
  proof cases
    case same
    then have "new_calls w (snd (transcribe E b w)) = ?tail"
      by (simp add: new_calls_def transcribe_calls)
    with tail same have ?plain
      by (auto simp: transcribe_files)
    then show ?thesis ..
  next
    case tmp
    let ?suffix = "if \<not> endswith fn (dot_fmt E fmt) then dot_fmt E fmt else []"
    from with_tmpfile_calls [of tmp E language ?suffix d w]
    obtain mid where mid: "mid = [] \<or>
          mid = [Print [ustr ''Transcribiendo '' @ tmp @ ustr '' (lang='' @ fmt_value E language @ ustr '')''],
                 ModelTranscribe tmp (whisper_opts language)]"
      and calls: "calls (snd ?B) = calls w @ Tempfile ?suffix tmp # mid @ [Unlink tmp]"
      unfolding tmp(8) by blast
    have new: "new_calls w (snd (transcribe E b w)) = Tempfile ?suffix tmp # mid @ Unlink tmp # ?tail"
      by (simp add: new_calls_def transcribe_calls calls)
    have gone: "(\<forall>v. os_unlink E tmp v = None) \<longrightarrow> files (snd (transcribe E b w)) tmp = None"
      by (simp add: transcribe_files tmp(8) with_tmpfile_removed)
    from tmp(1-7) mid tail new gone have ?tmp by blast
    then show ?thesis ..
  qed
qed

lemmas run_defs =
  transcribe_def transcribe_body_def with_tmpfile_def transcribe_file_def unlink_quietly_def
  emit_def suffix_of_def dot_fmt_def fmt_value_def endswith_def whisper_opts_def strip_def
  isspace_def jsonify_def ustr_def new_calls_def tempfiles_def model_calls_def field_def
  msg_empty_def msg_missing_def no_attribute_def demo_env_def demo_env_unlink_fails_def disk0_def
  Let_def

lemma tempfiles_simps [simp]:
  "tempfiles [] = []"
  "tempfiles (Tempfile s n # evs) = (s, n) # tempfiles evs"
  "tempfiles (ModelTranscribe p opts # evs) = tempfiles evs"
  "tempfiles (Unlink n # evs) = tempfiles evs"
  "tempfiles (Print ls # evs) = tempfiles evs"
  "tempfiles (xs @ ys) = tempfiles xs @ tempfiles ys"
  by (simp_all add: tempfiles_def)

lemma model_calls_simps [simp]:
  "model_calls [] = []"
  "model_calls (Tempfile s n # evs) = model_calls evs"
  "model_calls (ModelTranscribe p opts # evs) = (p, opts) # model_calls evs"
  "model_calls (Unlink n # evs) = model_calls evs"
  "model_calls (Print ls # evs) = model_calls evs"
  "model_calls (xs @ ys) = model_calls xs @ model_calls ys"
  by (simp_all add: model_calls_def)

lemma transcribe_response:
  "(\<exists>e. fst (transcribe E b w) =
         jsonify 500 [(ustr ''ok'', PBool False), (ustr ''error'', PStr (exn_str e)),
                      (ustr ''trace'', PStr (format_exc E e))]) \<or>
   fst (transcribe E b w) =
     jsonify 400 [(ustr ''ok'', PBool False), (ustr ''error'', PStr msg_empty)] \<or>
   fst (transcribe E b w) =
     jsonify 400 [(ustr ''ok'', PBool False), (ustr ''error'', PStr msg_missing)] \<or>
   (\<exists>path opts v result t.
      model_transcribe E path opts v = Inr result \<and>
      py_get result (ustr ''text'') (PStr []) = Inr (PStr t) \<and>
      fst (transcribe E b w) =
        jsonify 200 [(ustr ''ok'', PBool True), (ustr ''text'', PStr (strip t))])"
  (is "?err \<or> ?empty \<or> ?missing \<or> ?ok")
proof -
  let ?B = "transcribe_body E b w"
  from transcribe_body_shape [of E b w]
  consider (raised) e where "fst ?B = Inl e"
    | (empty) "fst ?B = Inr (jsonify 400 [(ustr ''ok'', PBool False), (ustr ''error'', PStr msg_empty)])"
    | (missing) "fst ?B = Inr (jsonify 400 [(ustr ''ok'', PBool False), (ustr ''error'', PStr msg_missing)])"
    | (tmp) suffix tmp d language where "?B = with_tmpfile E suffix tmp d language w"
    by fastforce
  then show ?thesis
  proof cases
    case raised
    then have ?err by (auto simp: transcribe_fst)
    then show ?thesis ..
  next
    case empty
    then show ?thesis by (simp add: transcribe_fst)
  next
    case missing
    then show ?thesis by (simp add: transcribe_fst)
  next
    case tmp
    let ?F = "transcribe_file E tmp d language
                (emit (Tempfile suffix tmp) (w\<lparr>files := (files w)(tmp \<mapsto> [])\<rparr>))"
    show ?thesis
    proof (cases "fst ?F")
      case (Inl e)
      then have ?err by (auto simp: transcribe_fst tmp with_tmpfile_fst)
      then show ?thesis ..
    next
      case (Inr stripped)
      from tf_text [OF Inr] obtain v result t where
        "model_transcribe E tmp (whisper_opts language) v = Inr result"
        "py_get result (ustr ''text'') (PStr []) = Inr (PStr t)" "stripped = strip t"
        by blast
      moreover from Inr have "fst (transcribe E b w) =
          jsonify 200 [(ustr ''ok'', PBool True), (ustr ''text'', PStr stripped)]"
        by (simp add: transcribe_fst tmp with_tmpfile_fst)
      ultimately have ?ok by blast
      then show ?thesis by blast
    qed
  qed
qed

lemma py_get_truthy:
  "py_get payload k PNone = Inr d \<Longrightarrow> truthy d \<Longrightarrow> truthy payload"
  by (cases payload) (auto split: option.splits)

section \<open>The claims\<close>







text \<open>
  C3, as the code has it. Whenever the handler calls the model, the keyword arguments
  are empty if \<open>language\<close> (\<open>"auto"\<close> when the field is absent) is \<open>"auto"\<close> or
  falsy (\<open>""\<close>, \<open>null\<close>, 0, \<open>false\<close>, \<open>[]\<close>, \<open>{}\<close>), and are exactly
  \<open>language=\<close> that value otherwise.
\<close>

theorem language_hint:
  assumes "(path, opts) \<in> set (model_calls (new_calls w (snd (transcribe E b w))))"
  shows "\<exists>payload language.
           b = Json payload \<and>
           py_get payload (ustr ''language'') (PStr (ustr ''auto'')) = Inr language \<and>
           opts = (if truthy language \<and> language \<noteq> PStr (ustr ''auto'')
                   then [(ustr ''language'', language)] else [])"
  using transcribe_run [of w E b] assms
  by (elim disjE exE conjE) (auto simp: whisper_opts_def)

text \<open>
  C3 at \<open>language = "es"\<close>, which is forwarded, and at an absent \<open>language\<close> and
  \<open>language = "auto"\<close>, where the model is called without a hint.
\<close>

theorem language_hint_witness:
  "(ustr ''/tmp/tmpq1w2e3.wav'', [(ustr ''language'', PStr (ustr ''es''))]) \<in> set (model_calls (new_calls disk0
      (snd (transcribe demo_env (Json (PDict [(ustr ''data'', PStr (ustr ''aGk='')),
                                              (ustr ''language'', PStr (ustr ''es''))])) disk0)))) \<and>
   model_calls (new_calls disk0
      (snd (transcribe demo_env (Json (PDict [(ustr ''data'', PStr (ustr ''aGk=''))])) disk0))) =
     [(ustr ''/tmp/tmpq1w2e3.wav'', [])] \<and>
   model_calls (new_calls disk0
      (snd (transcribe demo_env (Json (PDict [(ustr ''data'', PStr (ustr ''aGk='')),
                                              (ustr ''language'', PStr (ustr ''auto''))])) disk0))) =
     [(ustr ''/tmp/tmpq1w2e3.wav'', [])]"
proof -
  let ?b = "Json (PDict [(ustr ''data'', PStr (ustr ''aGk='')), (ustr ''language'', PStr (ustr ''es''))])"
  have 1: "(ustr ''/tmp/tmpq1w2e3.wav'', [(ustr ''language'', PStr (ustr ''es''))])
             \<in> set (model_calls (new_calls disk0 (snd (transcribe demo_env ?b disk0))))"
    by (simp add: run_defs)
  from language_hint [OF 1] have "\<exists>language.
      py_get (PDict [(ustr ''data'', PStr (ustr ''aGk='')), (ustr ''language'', PStr (ustr ''es''))])
        (ustr ''language'') (PStr (ustr ''auto'')) = Inr language"
    by blast
  moreover have "model_calls (new_calls disk0
      (snd (transcribe demo_env (Json (PDict [(ustr ''data'', PStr (ustr ''aGk=''))])) disk0))) =
     [(ustr ''/tmp/tmpq1w2e3.wav'', [])]"
    by (simp add: run_defs)
  moreover have "model_calls (new_calls disk0
      (snd (transcribe demo_env (Json (PDict [(ustr ''data'', PStr (ustr ''aGk='')),
                                              (ustr ''language'', PStr (ustr ''auto''))])) disk0))) =
     [(ustr ''/tmp/tmpq1w2e3.wav'', [])]"
    by (simp add: run_defs)
  ultimately show ?thesis using 1 by blast
qed

text \<open>
  C3 as stated fails at \<open>language = ""\<close>: the value is not \<open>"auto"\<close>, and the model
  is called without a hint.
\<close>

theorem empty_language_counterexample:
  "PStr [] \<noteq> PStr (ustr ''auto'') \<and>
   model_calls (new_calls disk0
      (snd (transcribe demo_env (Json (PDict [(ustr ''data'', PStr (ustr ''aGk='')),
                                              (ustr ''language'', PStr [])])) disk0))) =
     [(ustr ''/tmp/tmpq1w2e3.wav'', [])]"
  by (simp add: run_defs)

text \<open>
  C4. A body that parses to a non-empty JSON object without a \<open>data\<close> field is
  answered with ok:false, the message \<open>Falta campo 'data' (base64)\<close> and status 400,
  whatever its other fields are, and the world is left as it was.
\<close>

theorem missing_data_400:
  assumes "kvs \<noteq> []" and "ustr ''data'' \<notin> fst ` set kvs"
  shows "transcribe E (Json (PDict kvs)) w =
           (jsonify 400 [(ustr ''ok'', PBool False), (ustr ''error'', PStr msg_missing)], w)"
proof -
  from assms(2) have "map_of kvs (ustr ''data'') = None"
    by (simp only: map_of_eq_None_iff not_False_eq_True)
  with assms(1) show ?thesis
    by (simp add: transcribe_def transcribe_body_def Let_def)
qed

text \<open>
  C4 at a body with \<open>filename\<close>, \<open>format\<close> and \<open>language\<close> but no \<open>data\<close>.
\<close>

theorem missing_data_400_witness:
  "[(ustr ''filename'', PStr (ustr ''nota.mp3'')), (ustr ''format'', PStr (ustr ''mp3'')),
    (ustr ''language'', PStr (ustr ''es''))] \<noteq> [] \<and>
   ustr ''data'' \<notin> fst ` set [(ustr ''filename'', PStr (ustr ''nota.mp3'')),
      (ustr ''format'', PStr (ustr ''mp3'')), (ustr ''language'', PStr (ustr ''es''))] \<and>
   transcribe demo_env (Json (PDict [(ustr ''filename'', PStr (ustr ''nota.mp3'')),
      (ustr ''format'', PStr (ustr ''mp3'')), (ustr ''language'', PStr (ustr ''es''))])) disk0 =
     (jsonify 400 [(ustr ''ok'', PBool False), (ustr ''error'', PStr msg_missing)], disk0)"
proof -
  let ?kvs = "[(ustr ''filename'', PStr (ustr ''nota.mp3'')), (ustr ''format'', PStr (ustr ''mp3'')),
    (ustr ''language'', PStr (ustr ''es''))]"
  have 1: "?kvs \<noteq> []" by simp
  have 2: "ustr ''data'' \<notin> fst ` set ?kvs" by (simp add: ustr_def)
  from missing_data_400 [OF 1 2, of demo_env disk0] 1 2 show ?thesis by blast
qed

text \<open>
  C5, as the code has it. An answer of \<open>/transcribe\<close> whose status is not 200 is
  either \<open>{ok: false, error: string, trace: string}\<close> with status 500 (an exception
  reached the outer handler), or \<open>{ok: false, error: string}\<close> with status 400 and
  no \<open>trace\<close> (lines 32 and 36).
\<close>

theorem failure_shapes:
  assumes "status (fst (transcribe E b w)) \<noteq> 200"
  shows "(\<exists>err tb. fst (transcribe E b w) =
            jsonify 500 [(ustr ''ok'', PBool False), (ustr ''error'', PStr err),
                         (ustr ''trace'', PStr tb)]) \<or>
         (\<exists>err. fst (transcribe E b w) =
            jsonify 400 [(ustr ''ok'', PBool False), (ustr ''error'', PStr err)])"
  using transcribe_response [of E b w] assms
  by (elim disjE exE conjE) (auto simp: jsonify_def)

text \<open>
  C5 at a payload the decoder rejects: status 500, with error and trace.
\<close>

theorem failure_shapes_witness:
  "status (fst (transcribe demo_env (Json (PDict [(ustr ''data'', PStr (ustr ''not-valid-base64!!''))])) disk0)) \<noteq> 200 \<and>
   fst (transcribe demo_env (Json (PDict [(ustr ''data'', PStr (ustr ''not-valid-base64!!''))])) disk0) =
     jsonify 500 [(ustr ''ok'', PBool False), (ustr ''error'', PStr (ustr ''Incorrect padding'')),
                  (ustr ''trace'', PStr (ustr ''Traceback (most recent call last):'' @ [10] @ ustr ''Incorrect padding''))]"
proof -
  let ?r = "fst (transcribe demo_env (Json (PDict [(ustr ''data'', PStr (ustr ''not-valid-base64!!''))])) disk0)"
  have 1: "status ?r \<noteq> 200" by (simp add: run_defs)
  from failure_shapes [OF 1] have "status ?r = 500 \<or> status ?r = 400"
    by (auto simp: jsonify_def)
  moreover have "status ?r = 500 \<longrightarrow> ?r =
     jsonify 500 [(ustr ''ok'', PBool False), (ustr ''error'', PStr (ustr ''Incorrect padding'')),
                  (ustr ''trace'', PStr (ustr ''Traceback (most recent call last):'' @ [10] @ ustr ''Incorrect padding''))]"
    by (simp add: run_defs)
  moreover have "status ?r \<noteq> 400" by (simp add: run_defs)
  ultimately show ?thesis using 1 by blast
qed

text \<open>
  C5 as stated fails at the body \<open>{}\<close>: the answer is a failure with status 400,
  and it has no \<open>trace\<close> field.
\<close>

theorem failure_without_trace_counterexample:
  "status (fst (transcribe demo_env (Json (PDict [])) disk0)) = 400 \<and>
   field (fst (transcribe demo_env (Json (PDict [])) disk0)) ''ok'' = Some (PBool False) \<and>
   field (fst (transcribe demo_env (Json (PDict [])) disk0)) ''error'' = Some (PStr msg_empty) \<and>
   field (fst (transcribe demo_env (Json (PDict [])) disk0)) ''trace'' = None"
  by (simp add: run_defs)

text \<open>
  C6. When \<open>/transcribe\<close> answers with status 200, the model returned a result,
  and the answer is \<open>{ok: true, text: strip t}\<close> where t is the result's \<open>text\<close>
  (the empty string when the result has none): t is \<open>strip t\<close> with whitespace before
  and after it, and \<open>strip t\<close> neither begins nor ends with whitespace.
\<close>

theorem success_text_stripped:
  assumes "status (fst (transcribe E b w)) = 200"
  shows "\<exists>path opts v result t.
           model_transcribe E path opts v = Inr result \<and>
           py_get result (ustr ''text'') (PStr []) = Inr (PStr t) \<and>
           fst (transcribe E b w) =
             jsonify 200 [(ustr ''ok'', PBool True), (ustr ''text'', PStr (strip t))] \<and>
           (\<exists>a z. t = a @ strip t @ z \<and> (\<forall>c\<in>set a. isspace c) \<and> (\<forall>c\<in>set z. isspace c)) \<and>
           (strip t \<noteq> [] \<longrightarrow> \<not> isspace (hd (strip t)) \<and> \<not> isspace (last (strip t)))"
proof -
  from transcribe_response [of E b w] assms
  obtain path opts v result t where
    "model_transcribe E path opts v = Inr result"
    "py_get result (ustr ''text'') (PStr []) = Inr (PStr t)"
    "fst (transcribe E b w) =
       jsonify 200 [(ustr ''ok'', PBool True), (ustr ''text'', PStr (strip t))]"
    by (elim disjE exE conjE) (auto simp: jsonify_def)
  with strip_decomp [of t] strip_hd [of t] strip_last [of t] show ?thesis by blast
qed

text \<open>
  C6 at a request that succeeds: the model says \<open>" hola mundo \n"\<close>, the answer
  carries \<open>"hola mundo"\<close>.
\<close>

theorem success_text_stripped_witness:
  "status (fst (transcribe demo_env (Json (PDict [(ustr ''data'', PStr (ustr ''aGk=''))])) disk0)) = 200 \<and>
   fst (transcribe demo_env (Json (PDict [(ustr ''data'', PStr (ustr ''aGk=''))])) disk0) =
     jsonify 200 [(ustr ''ok'', PBool True), (ustr ''text'', PStr (ustr ''hola mundo''))] \<and>
   strip (ustr '' hola mundo '' @ [10]) = ustr ''hola mundo''"
proof -
  let ?r = "fst (transcribe demo_env (Json (PDict [(ustr ''data'', PStr (ustr ''aGk=''))])) disk0)"
  have 1: "status ?r = 200" by (simp add: run_defs)
  from success_text_stripped [OF 1] obtain t where
    "?r = jsonify 200 [(ustr ''ok'', PBool True), (ustr ''text'', PStr (strip t))]"
    by blast
  moreover have "?r = jsonify 200 [(ustr ''ok'', PBool True), (ustr ''text'', PStr (ustr ''hola mundo''))]"
    by (simp add: run_defs)
  moreover have "strip (ustr '' hola mundo '' @ [10]) = ustr ''hola mundo''"
    by (simp add: strip_def isspace_def ustr_def)
  ultimately show ?thesis using 1 by blast
qed

text \<open>
  C7. When \<open>data\<close> is present and truthy and \<open>base64.b64decode\<close> raises for it,
  the answer has ok:false and status 500; if the request got as far as creating the
  temporary file, the error and the trace are those of the decoder's exception.
\<close>

theorem undecodable_data_500:
  assumes "py_get payload (ustr ''data'') PNone = Inr d" and "truthy d"
    and "b64decode E d = Inl e"
  shows "status (fst (transcribe E (Json payload) w)) = 500 \<and>
         field (fst (transcribe E (Json payload) w)) ''ok'' = Some (PBool False) \<and>
         (tempfiles (new_calls w (snd (transcribe E (Json payload) w))) \<noteq> [] \<longrightarrow>
            fst (transcribe E (Json payload) w) =
              jsonify 500 [(ustr ''ok'', PBool False), (ustr ''error'', PStr (exn_str e)),
                           (ustr ''trace'', PStr (format_exc E e))])"
proof -
  let ?b = "Json payload"
  let ?B = "transcribe_body E ?b w"
  from py_get_truthy [OF assms(1,2)] have tp: "truthy payload" .
  from transcribe_body_shape [of E ?b w] tp assms(1,2)
  consider (raised) e' where "?B = (Inl e', w)"
    | (tmp) suffix tmp language where "?B = with_tmpfile E suffix tmp d language w"
    by (elim disjE exE conjE) auto
  then show ?thesis
  proof cases
    case raised
    then have "new_calls w (snd (transcribe E ?b w)) =
        [Print [ustr ''ERROR en transcribe:'', format_exc E e']]"
      by (simp add: new_calls_def transcribe_calls)
    with raised show ?thesis
      by (simp add: transcribe_fst jsonify_def field_def ustr_def)
  next
    case tmp
    have "fst ?B = Inl e"
      by (simp add: tmp with_tmpfile_fst tf_decode [OF assms(3)])
    then show ?thesis
      by (simp add: transcribe_fst jsonify_def field_def ustr_def)
  qed
qed

text \<open>
  C7 at \<open>{"data": "not-valid-base64!!", "format": "wav"}\<close>.
\<close>

theorem undecodable_data_500_witness:
  "py_get (PDict [(ustr ''data'', PStr (ustr ''not-valid-base64!!'')), (ustr ''format'', PStr (ustr ''wav''))])
     (ustr ''data'') PNone = Inr (PStr (ustr ''not-valid-base64!!'')) \<and>
   truthy (PStr (ustr ''not-valid-base64!!'')) \<and>
   b64decode demo_env (PStr (ustr ''not-valid-base64!!'')) =
     Inl (Exn ''binascii.Error'' (ustr ''Incorrect padding'')) \<and>
   status (fst (transcribe demo_env (Json (PDict [(ustr ''data'', PStr (ustr ''not-valid-base64!!'')),
       (ustr ''format'', PStr (ustr ''wav''))])) disk0)) = 500 \<and>
   field (fst (transcribe demo_env (Json (PDict [(ustr ''data'', PStr (ustr ''not-valid-base64!!'')),
       (ustr ''format'', PStr (ustr ''wav''))])) disk0)) ''ok'' = Some (PBool False)"
proof -
  let ?d = "PStr (ustr ''not-valid-base64!!'')"
  let ?p = "PDict [(ustr ''data'', ?d), (ustr ''format'', PStr (ustr ''wav''))]"
  have 1: "py_get ?p (ustr ''data'') PNone = Inr ?d" by simp
  have 2: "truthy ?d" by (simp add: ustr_def)
  have 3: "b64decode demo_env ?d = Inl (Exn ''binascii.Error'' (ustr ''Incorrect padding''))"
    by (simp add: demo_env_def ustr_def)
  from undecodable_data_500 [OF 1 2 3, of disk0] 1 2 3 show ?thesis by blast
qed

text \<open>
  C8. \<open>health()\<close> answers \<open>{ok: true, model: m}\<close> with status 200, where m is the
  value of \<open>WHISPER_MODEL\<close> in the environment read at startup, or \<open>base\<close> when it
  is not set; it leaves the world as it was, and its answer after a request to
  \<open>/transcribe\<close> is its answer before.
\<close>

theorem health_reports_model:
  "health (MODEL_NAME environ) w =
     (jsonify 200 [(ustr ''ok'', PBool True),
                   (ustr ''model'', PStr (case environ (ustr ''WHISPER_MODEL'') of
                                            None \<Rightarrow> ustr ''base'' | Some m \<Rightarrow> m))], w) \<and>
   fst (health (MODEL_NAME environ) (snd (transcribe E b w))) = fst (health (MODEL_NAME environ) w)"
  by (simp add: health_def MODEL_NAME_def)

text \<open>
  C8 with \<open>WHISPER_MODEL\<close> not set, before and after a transcription, and with
  \<open>WHISPER_MODEL=small\<close>.
\<close>

theorem health_reports_model_witness:
  "health (MODEL_NAME Map.empty) disk0 =
     (jsonify 200 [(ustr ''ok'', PBool True), (ustr ''model'', PStr (ustr ''base''))], disk0) \<and>
   fst (health (MODEL_NAME Map.empty)
          (snd (transcribe demo_env (Json (PDict [(ustr ''data'', PStr (ustr ''aGk=''))])) disk0))) =
     jsonify 200 [(ustr ''ok'', PBool True), (ustr ''model'', PStr (ustr ''base''))] \<and>
   health (MODEL_NAME [ustr ''WHISPER_MODEL'' \<mapsto> ustr ''small'']) disk0 =
     (jsonify 200 [(ustr ''ok'', PBool True), (ustr ''model'', PStr (ustr ''small''))], disk0)"
  using health_reports_model [of Map.empty disk0 demo_env "Json (PDict [(ustr ''data'', PStr (ustr ''aGk=''))])"]
    health_reports_model [of "[ustr ''WHISPER_MODEL'' \<mapsto> ustr ''small'']" disk0 demo_env "Json (PDict [])"]
  by simp

text \<open>
  C9. Whenever the handler creates a temporary file, \<open>filename\<close> (\<open>"audio"\<close> when
  absent) is a string, and the suffix asked for is the full stop followed by the
  \<open>format\<close> value (\<open>"wav"\<close> when absent), unless \<open>filename\<close> ends with exactly
  that, in which case the suffix is empty.
\<close>

theorem tempfile_suffix:
  assumes "(suffix, name) \<in> set (tempfiles (new_calls w (snd (transcribe E b w))))"
  shows "\<exists>payload fn fmt.
           b = Json payload \<and>
           py_get payload (ustr ''filename'') (PStr (ustr ''audio'')) = Inr (PStr fn) \<and>
           py_get payload (ustr ''format'') (PStr (ustr ''wav'')) = Inr fmt \<and>
           suffix = (if endswith fn (ustr ''.'' @ fmt_value E fmt) then []
                     else ustr ''.'' @ fmt_value E fmt)"
  using transcribe_run [of w E b] assms
  by (elim disjE exE conjE) (auto simp: dot_fmt_def)

text \<open>
  C9 at the defaults (suffix \<open>.wav\<close>), at \<open>nota.mp3\<close> with format \<open>mp3\<close> (no
  suffix), and at \<open>nota.wav\<close> with format \<open>mp3\<close> (suffix \<open>.mp3\<close>).
\<close>

theorem tempfile_suffix_witness:
  "(ustr ''.wav'', ustr ''/tmp/tmpq1w2e3.wav'') \<in> set (tempfiles (new_calls disk0
      (snd (transcribe demo_env (Json (PDict [(ustr ''data'', PStr (ustr ''aGk=''))])) disk0)))) \<and>
   tempfiles (new_calls disk0
      (snd (transcribe demo_env (Json (PDict [(ustr ''data'', PStr (ustr ''aGk='')),
          (ustr ''filename'', PStr (ustr ''nota.mp3'')), (ustr ''format'', PStr (ustr ''mp3''))])) disk0))) =
     [([], ustr ''/tmp/tmpq1w2e3'')] \<and>
   tempfiles (new_calls disk0
      (snd (transcribe demo_env (Json (PDict [(ustr ''data'', PStr (ustr ''aGk='')),
          (ustr ''filename'', PStr (ustr ''nota.wav'')), (ustr ''format'', PStr (ustr ''mp3''))])) disk0))) =
     [(ustr ''.mp3'', ustr ''/tmp/tmpq1w2e3.mp3'')]"
proof -
  let ?b = "Json (PDict [(ustr ''data'', PStr (ustr ''aGk=''))])"
  have 1: "(ustr ''.wav'', ustr ''/tmp/tmpq1w2e3.wav'')
             \<in> set (tempfiles (new_calls disk0 (snd (transcribe demo_env ?b disk0))))"
    by (simp add: run_defs)
  from tempfile_suffix [OF 1] have "\<exists>fn.
      py_get (PDict [(ustr ''data'', PStr (ustr ''aGk=''))]) (ustr ''filename'') (PStr (ustr ''audio''))
        = Inr (PStr fn)"
    by blast
  moreover have "tempfiles (new_calls disk0
      (snd (transcribe demo_env (Json (PDict [(ustr ''data'', PStr (ustr ''aGk='')),
          (ustr ''filename'', PStr (ustr ''nota.mp3'')), (ustr ''format'', PStr (ustr ''mp3''))])) disk0))) =
     [([], ustr ''/tmp/tmpq1w2e3'')]"
    by (simp add: run_defs)
  moreover have "tempfiles (new_calls disk0
      (snd (transcribe demo_env (Json (PDict [(ustr ''data'', PStr (ustr ''aGk='')),
          (ustr ''filename'', PStr (ustr ''nota.wav'')), (ustr ''format'', PStr (ustr ''mp3''))])) disk0))) =
     [(ustr ''.mp3'', ustr ''/tmp/tmpq1w2e3.mp3'')]"
    by (simp add: run_defs)
  ultimately show ?thesis using 1 by blast
qed

text \<open>
  C10. A JSON object whose \<open>data\<close> field is present but falsy is answered as one
  without \<open>data\<close>: ok:false, the missing-data message, status 400; the world is left
  as it was, so no temporary file is created and the model is not called.
\<close>

theorem falsy_data_400:
  assumes "map_of kvs (ustr ''data'') = Some d" and "\<not> truthy d"
  shows "transcribe E (Json (PDict kvs)) w =
           (jsonify 400 [(ustr ''ok'', PBool False), (ustr ''error'', PStr msg_missing)], w) \<and>
         tempfiles (new_calls w (snd (transcribe E (Json (PDict kvs)) w))) = [] \<and>
         model_calls (new_calls w (snd (transcribe E (Json (PDict kvs)) w))) = []"
proof -
  from assms(1) have "kvs \<noteq> []" by auto
  with assms have "transcribe E (Json (PDict kvs)) w =
      (jsonify 400 [(ustr ''ok'', PBool False), (ustr ''error'', PStr msg_missing)], w)"
    by (simp add: transcribe_def transcribe_body_def Let_def)
  then show ?thesis by (simp add: new_calls_def)
qed

text \<open>
  C10 at \<open>{"data": "", "format": "wav"}\<close>.
\<close>

theorem falsy_data_400_witness:
  "map_of [(ustr ''data'', PStr []), (ustr ''format'', PStr (ustr ''wav''))] (ustr ''data'') = Some (PStr []) \<and>
   \<not> truthy (PStr []) \<and>
   transcribe demo_env (Json (PDict [(ustr ''data'', PStr []), (ustr ''format'', PStr (ustr ''wav''))])) disk0 =
     (jsonify 400 [(ustr ''ok'', PBool False), (ustr ''error'', PStr msg_missing)], disk0)"
proof -
  have 1: "map_of [(ustr ''data'', PStr []), (ustr ''format'', PStr (ustr ''wav''))] (ustr ''data'') = Some (PStr [])"
    by simp
  have 2: "\<not> truthy (PStr [])" by simp
  from falsy_data_400 [OF 1 2, of demo_env disk0] 1 2 show ?thesis by blast
qed

end
